theory Spec2Isabelle
  imports Complex_Main "HOL-Library.Sublist"
begin

section \<open>Data model\<close>

text \<open>
  The program keeps its data in a pandas DataFrame with the columns
  \<^verbatim>\<open>Date\<close>, \<^verbatim>\<open>Recycling\<close>, \<^verbatim>\<open>Compost\<close> and \<^verbatim>\<open>Landfill\<close>. The forecast
  page computes row by row; it is modelled on frames that have these columns with
  numeric cells. A row of such a frame is a record of this theory, and the frame is
  the list of its rows in index order (type \<open>records\<close>). The dashboard and the
  gamification page sum whole columns, where the dtype of the column decides the
  result; they are modelled on the three quantity columns with their dtypes (type
  \<open>quantities\<close>). The storage functions, which never look at the columns, are
  modelled on arbitrary frames further down.

  Numbers: an int64 is an integer with the wrap-around at \<open>2 ^ 63\<close> written out. A
  float64 is modelled by the real number it denotes, and the rounding of a float64
  operation is not modelled, with one exception: the total of the gamification page,
  whose level jumps at the multiples of 100, is any float64 within the rounding error
  of the exact total. The places where the program can leave the finite numbers are
  modelled explicitly: the scalar division of the dashboard (a fault when the divisor
  is zero) and the column division of the forecast page (IEEE results \<^verbatim>\<open>nan\<close>,
  \<^verbatim>\<open>inf\<close>, \<^verbatim>\<open>-inf\<close>).

  Dates: a calendar day is modelled by its day number (an integer), whatever its
  representation (a \<^verbatim>\<open>datetime.date\<close> or its ISO string in the file).
\<close>

type_synonym date = int

record waste_row =
  Date :: date
  Recycling :: real
  Compost :: real
  Landfill :: real

type_synonym records = "waste_row list"

datatype error =
    ZeroDivisionError
  | ValueError
  | ParserError
  | OSError



section \<open>Columns and scalars of pandas and numpy\<close>

text \<open>
  A quantity column is an \<^verbatim>\<open>int64\<close> series (what \<^verbatim>\<open>read_csv\<close> makes of a column of
  integer literals, such as the seed data) or a \<^verbatim>\<open>float64\<close> series (as soon as one
  cell has a decimal point, which every entry of the form has). The sum of a series and
  the sum of two such sums are numpy scalars of the same kind.

  \<^verbatim>\<open>Series.sum()\<close> on an int64 series accumulates in int64, so every addition wraps
  around; so does the addition of two int64 scalars. With a float64 operand the
  result is float64. The sum of an empty column is 0.
\<close>

datatype np_scalar = Int64 int | Float64 real

definition wrap64 :: "int \<Rightarrow> int" where
  "wrap64 n = (n + 2 ^ 63) mod 2 ^ 64 - 2 ^ 63"

definition np_value :: "np_scalar \<Rightarrow> real" where
  "np_value s = (case s of Int64 n \<Rightarrow> of_int n | Float64 x \<Rightarrow> x)"


fun np_add :: "np_scalar \<Rightarrow> np_scalar \<Rightarrow> np_scalar" where
  "np_add (Int64 m) (Int64 n) = Int64 (wrap64 (m + n))"
| "np_add a b = Float64 (np_value a + np_value b)"

datatype series = Int64Series "int list" | Float64Series "real list"

definition Series_sum :: "series \<Rightarrow> np_scalar" where
  "Series_sum s =
     (case s of
        Int64Series ns \<Rightarrow> Int64 (foldl (\<lambda>acc n. wrap64 (acc + n)) 0 ns)
      | Float64Series xs \<Rightarrow> Float64 (sum_list xs))"

text \<open>
  \<^verbatim>\<open>df['Recycling']\<close>, \<^verbatim>\<open>df['Compost']\<close> and \<^verbatim>\<open>df['Landfill']\<close>: the record
  (10, 5, 20) followed by (0, 0, 0) is the frame with the columns [10, 0], [5, 0] and
  [20, 0].
\<close>

record quantities =
  Recycling_column :: series
  Compost_column :: series
  Landfill_column :: series

text \<open>
  For the statements: the sum of a column as a number, without wrap-around or
  rounding, the sum of the absolute values of its cells, its length, and the invariant
  that no cell is negative.
\<close>

definition exact_sum :: "series \<Rightarrow> real" where
  "exact_sum s =
     (case s of Int64Series ns \<Rightarrow> of_int (sum_list ns) | Float64Series xs \<Rightarrow> sum_list xs)"




section \<open>Executive Dashboard\<close>

text \<open>
  \<^verbatim>\<open>
  total_recycling = df['Recycling'].sum()
  total_compost = df['Compost'].sum()
  total_landfill = df['Landfill'].sum()
  grand_total = total_recycling + total_compost + total_landfill
  if grand_total > 0:
      div_rate = ((total_recycling + total_compost) / grand_total) * 100
  else:
      div_rate = 0
  \<close>
  The division of two scalars gives a float64. It is a fault when the divisor is zero
  (a \<^verbatim>\<open>ZeroDivisionError\<close> on Python numbers, a non-finite value on numpy scalars):
  the model makes it an error value, so that the absence of the fault is a property of
  the result.
\<close>

definition truediv :: "real \<Rightarrow> real \<Rightarrow> error + real" where
  "truediv a b = (if b = 0 then Inl ZeroDivisionError else Inr (a / b))"

definition total_recycling :: "quantities \<Rightarrow> np_scalar" where
  "total_recycling df = Series_sum (Recycling_column df)"

definition total_compost :: "quantities \<Rightarrow> np_scalar" where
  "total_compost df = Series_sum (Compost_column df)"

definition total_landfill :: "quantities \<Rightarrow> np_scalar" where
  "total_landfill df = Series_sum (Landfill_column df)"

definition grand_total :: "quantities \<Rightarrow> np_scalar" where
  "grand_total df = np_add (np_add (total_recycling df) (total_compost df)) (total_landfill df)"

definition div_rate :: "quantities \<Rightarrow> error + real" where
  "div_rate df =
     (if np_value (grand_total df) > 0
      then (case truediv (np_value (np_add (total_recycling df) (total_compost df)))
                   (np_value (grand_total df)) of
              Inl e \<Rightarrow> Inl e
            | Inr q \<Rightarrow> Inr (q * 100))
      else Inr 0)"

section \<open>Gamification\<close>








section \<open>AI Analyst\<close>

text \<open>
  \<^verbatim>\<open>
  df['Week_Num'] = range(1, len(df) + 1)
  df['Rate'] = ((df['Recycling'] + df['Compost'])
                / (df['Recycling'] + df['Compost'] + df['Landfill'])) * 100
  \<close>
  The division of two columns is elementwise and never raises: a zero divisor gives
  \<^verbatim>\<open>nan\<close> (for \<^verbatim>\<open>0/0\<close>) or an infinity.
\<close>

datatype npfloat = Finite real | NaN | PosInf | NegInf

definition series_div :: "real \<Rightarrow> real \<Rightarrow> npfloat" where
  "series_div a b =
     (if b \<noteq> 0 then Finite (a / b)
      else if a = 0 then NaN
      else if 0 < a then PosInf
      else NegInf)"

definition times100 :: "npfloat \<Rightarrow> npfloat" where
  "times100 v = (case v of Finite x \<Rightarrow> Finite (x * 100) | NaN \<Rightarrow> NaN
                 | PosInf \<Rightarrow> PosInf | NegInf \<Rightarrow> NegInf)"

definition Week_Num :: "records \<Rightarrow> nat list" where
  "Week_Num df = [1 ..< length df + 1]"

definition row_rate :: "waste_row \<Rightarrow> npfloat" where
  "row_rate r =
     times100 (series_div (Recycling r + Compost r) (Recycling r + Compost r + Landfill r))"

definition Rate :: "records \<Rightarrow> npfloat list" where
  "Rate df = map row_rate df"

text \<open>\<^verbatim>\<open>Series.fillna(v)\<close>: only \<^verbatim>\<open>nan\<close> is replaced; an infinity stays.\<close>

definition fillna :: "real \<Rightarrow> npfloat list \<Rightarrow> npfloat list" where
  "fillna v ys = map (\<lambda>y. case y of NaN \<Rightarrow> Finite v | _ \<Rightarrow> y) ys"

text \<open>
  \<^verbatim>\<open>LinearRegression().fit(X, y)\<close> with one feature is scikit-learn's, not the
  program's; it is modelled by what it computes. The input is validated first (a
  \<^verbatim>\<open>ValueError\<close> for an empty sample, for columns of different lengths and for a
  value that is not finite). Then both columns are centred, the coefficient is the
  least-squares solution on the centred data (the minimum-norm one, \<open>0\<close>, when all
  \<open>x\<close> are equal) and the intercept is \<open>mean y - coef * mean x\<close>.
  \<^verbatim>\<open>predict\<close> evaluates the line.
\<close>

record linear_model =
  coef :: real
  intercept :: real

fun check_finite :: "npfloat list \<Rightarrow> error + real list" where
  "check_finite [] = Inr []"
| "check_finite (Finite x # vs) =
     (case check_finite vs of Inl e \<Rightarrow> Inl e | Inr xs \<Rightarrow> Inr (x # xs))"
| "check_finite (v # vs) = Inl ValueError"

definition mean :: "real list \<Rightarrow> real" where
  "mean xs = sum_list xs / real (length xs)"

definition centred_xy :: "real list \<Rightarrow> real list \<Rightarrow> real" where
  "centred_xy X y = (\<Sum>(x, v) \<leftarrow> zip X y. (x - mean X) * (v - mean y))"

definition centred_xx :: "real list \<Rightarrow> real" where
  "centred_xx X = (\<Sum>x \<leftarrow> X. (x - mean X) * (x - mean X))"

definition fit :: "real list \<Rightarrow> npfloat list \<Rightarrow> error + linear_model" where
  "fit X y =
     (if X = [] \<or> length X \<noteq> length y then Inl ValueError
      else case check_finite y of
             Inl e \<Rightarrow> Inl e
           | Inr ys \<Rightarrow>
               (let a = centred_xy X ys / centred_xx X
                in Inr \<lparr>coef = a, intercept = mean ys - a * mean X\<rparr>))"

definition predict :: "linear_model \<Rightarrow> real \<Rightarrow> real" where
  "predict m x = coef m * x + intercept m"

text \<open>
  \<^verbatim>\<open>
  if len(df) > 1:
      model = LinearRegression()
      X = df[['Week_Num']]
      y = df['Rate'].fillna(0)
      model.fit(X, y)
      future_weeks = np.array(range(len(df)+1, len(df)+5)).reshape(-1, 1)
      predictions = model.predict(future_weeks)
      ...
  else:
      st.error("Need more data to predict.")
  \<close>
  The page either shows the predictions for \<open>future_weeks\<close> or the message that more
  data is needed; an exception of \<open>fit\<close> is the third outcome.
\<close>

datatype forecast = Predictions "(nat \<times> real) list" | NeedMoreData

definition future_weeks :: "records \<Rightarrow> nat list" where
  "future_weeks df = [length df + 1 ..< length df + 5]"

definition ai_analyst :: "records \<Rightarrow> error + forecast" where
  "ai_analyst df =
     (if length df > 1
      then (case fit (map real (Week_Num df)) (fillna 0 (Rate df)) of
              Inl e \<Rightarrow> Inl e
            | Inr model \<Rightarrow>
                Inr (Predictions
                  (zip (future_weeks df) (map (\<lambda>w. predict model (real w)) (future_weeks df)))))
      else Inr NeedMoreData)"





section \<open>Storage\<close>

text \<open>
  \<^verbatim>\<open>load_data\<close> and \<^verbatim>\<open>save_entry\<close> never look at the columns of the frame they
  move between the file and the caller, so they are modelled on arbitrary frames: a
  list of column names and the rows, each a list of cells in column order. A cell is
  the value pandas holds there. A calendar day is one value, as a
  \<^verbatim>\<open>datetime.date\<close> in memory and as its ISO string in the file; \<open>StrCell\<close> is any
  other text.

  The file \<^verbatim>\<open>waste_data.csv\<close> is modelled by what \<^verbatim>\<open>pd.read_csv\<close> makes of it:
  absent, a text that parses to a frame (whatever its columns and cells), or a text
  that pandas refuses (an empty file, rows of different lengths), for which
  \<^verbatim>\<open>read_csv\<close> raises. Writing \<^verbatim>\<open>df.to_csv(DATA_FILE, index=False)\<close> replaces the
  whole content; it raises \<^verbatim>\<open>OSError\<close> when the file cannot be opened for writing,
  and then leaves the content as it was.
\<close>

datatype cell = DateCell date | NumCell real | StrCell string | NaNCell

record dataframe =
  columns :: "string list"
  rows :: "cell list list"

datatype file_content = Csv dataframe | Unparseable

record storage =
  content :: "file_content option"
  writable :: bool

text \<open>The frame with the four expected columns that holds the given records.\<close>

definition frame_of :: "records \<Rightarrow> dataframe" where
  "frame_of rs =
     \<lparr>columns = [''Date'', ''Recycling'', ''Compost'', ''Landfill''],
      rows = map (\<lambda>r. [DateCell (Date r), NumCell (Recycling r), NumCell (Compost r),
                        NumCell (Landfill r)]) rs\<rparr>"

definition path_exists :: "storage \<Rightarrow> bool" where
  "path_exists st = (content st \<noteq> None)"

definition to_csv :: "dataframe \<Rightarrow> storage \<Rightarrow> error + storage" where
  "to_csv df st = (if writable st then Inr (st\<lparr>content := Some (Csv df)\<rparr>) else Inl OSError)"

definition read_csv :: "storage \<Rightarrow> error + dataframe" where
  "read_csv st =
     (case content st of
        None \<Rightarrow> Inl OSError
      | Some (Csv df) \<Rightarrow> Inr df
      | Some Unparseable \<Rightarrow> Inl ParserError)"

text \<open>
  \<^verbatim>\<open>
  def load_data():
      if not os.path.exists(DATA_FILE):
          df = pd.DataFrame({
              "Date": [datetime.now().date() - timedelta(days=i*7) for i in range(5)],
              "Recycling": [45, 48, 50, 52, 40],
              "Compost": [20, 22, 25, 28, 15],
              "Landfill": [100, 95, 90, 85, 110]
          })
          df.to_csv(DATA_FILE, index=False)
      return pd.read_csv(DATA_FILE)
  \<close>
  The current date is a parameter; the storage is passed in and returned.
\<close>

definition seed :: "date \<Rightarrow> dataframe" where
  "seed today =
     frame_of
       [\<lparr>Date = today - 0 * 7, Recycling = 45, Compost = 20, Landfill = 100\<rparr>,
        \<lparr>Date = today - 1 * 7, Recycling = 48, Compost = 22, Landfill = 95\<rparr>,
        \<lparr>Date = today - 2 * 7, Recycling = 50, Compost = 25, Landfill = 90\<rparr>,
        \<lparr>Date = today - 3 * 7, Recycling = 52, Compost = 28, Landfill = 85\<rparr>,
        \<lparr>Date = today - 4 * 7, Recycling = 40, Compost = 15, Landfill = 110\<rparr>]"

definition load_data :: "date \<Rightarrow> storage \<Rightarrow> storage \<times> (error + dataframe)" where
  "load_data today st =
     (if \<not> path_exists st
      then (case to_csv (seed today) st of
              Inl e \<Rightarrow> (st, Inl e)
            | Inr st' \<Rightarrow> (st', read_csv st'))
      else (st, read_csv st))"

text \<open>
  \<^verbatim>\<open>pd.concat([df, new_entry], ignore_index=True)\<close>: the columns of the result are
  those of the first frame followed by the new ones of the second, the rows of both
  frames follow each other, and a row has \<^verbatim>\<open>nan\<close> in a column its frame lacks.
\<close>

definition cell_at :: "string list \<Rightarrow> cell list \<Rightarrow> string \<Rightarrow> cell" where
  "cell_at cols row c = (case map_of (zip cols row) c of Some v \<Rightarrow> v | None \<Rightarrow> NaNCell)"

definition reindex :: "string list \<Rightarrow> dataframe \<Rightarrow> cell list list" where
  "reindex cols df = map (\<lambda>row. map (cell_at (columns df) row) cols) (rows df)"

definition concat_frames :: "dataframe \<Rightarrow> dataframe \<Rightarrow> dataframe" where
  "concat_frames a b =
     (let cols = columns a @ filter (\<lambda>c. c \<notin> set (columns a)) (columns b)
      in \<lparr>columns = cols, rows = reindex cols a @ reindex cols b\<rparr>)"

text \<open>
  \<^verbatim>\<open>
  def save_entry(recycling, compost, landfill):
      df = load_data()
      new_entry = pd.DataFrame({
          "Date": [datetime.now().date()],
          "Recycling": [recycling],
          "Compost": [compost],
          "Landfill": [landfill]
      })
      df = pd.concat([df, new_entry], ignore_index=True)
      df.to_csv(DATA_FILE, index=False)
      return df
  \<close>
\<close>

definition new_entry :: "date \<Rightarrow> real \<Rightarrow> real \<Rightarrow> real \<Rightarrow> dataframe" where
  "new_entry today recycling compost landfill =
     frame_of [\<lparr>Date = today, Recycling = recycling, Compost = compost, Landfill = landfill\<rparr>]"

definition save_entry ::
  "date \<Rightarrow> real \<Rightarrow> real \<Rightarrow> real \<Rightarrow> storage \<Rightarrow> storage \<times> (error + dataframe)" where
  "save_entry today recycling compost landfill st =
     (case load_data today st of
        (st1, Inl e) \<Rightarrow> (st1, Inl e)
      | (st1, Inr df) \<Rightarrow>
          (let df' = concat_frames df (new_entry today recycling compost landfill)
           in case to_csv df' st1 of
                Inl e \<Rightarrow> (st1, Inl e)
              | Inr st2 \<Rightarrow> (st2, Inr df')))"

section \<open>Smart Sorter\<close>

text \<open>
  \<^verbatim>\<open>
  def get_waste_advice(item):
      item = item.lower().strip()
      database = { "pizza box": "Compost (if greasy) / Recycle (if clean)", ... }
      for key in database:
          if key in item:
              return database[key]
      return "Unknown item. General rule: When in doubt, throw it out (Landfill)."
  \<close>
  A string is a list of characters. \<^verbatim>\<open>lower\<close> and \<^verbatim>\<open>strip\<close> are modelled on
  ASCII: the letters A to Z are lowered, the ASCII whitespace characters (9 to 13, 28
  to 32) are stripped from both ends, and every other character is kept as it is.
  A dict is iterated in insertion order, so the table is the list of its items in the
  order they are written; \<^verbatim>\<open>key in item\<close> is containment as a contiguous substring
  (\<^const>\<open>sublist\<close>).
\<close>

definition lower_char :: "char \<Rightarrow> char" where
  "lower_char c =
     (let n = of_char c :: nat in if 65 \<le> n \<and> n \<le> 90 then char_of (n + 32) else c)"

definition lower :: "string \<Rightarrow> string" where
  "lower s = map lower_char s"

definition isspace :: "char \<Rightarrow> bool" where
  "isspace c = (let n = of_char c :: nat in (9 \<le> n \<and> n \<le> 13) \<or> (28 \<le> n \<and> n \<le> 32))"

definition strip :: "string \<Rightarrow> string" where
  "strip s = rev (dropWhile isspace (rev (dropWhile isspace s)))"

definition database :: "(string \<times> string) list" where
  "database =
     [(''pizza box'', ''Compost (if greasy) / Recycle (if clean)''),
      (''plastic bottle'', ''Recycle (Rinse first)''),
      (''banana peel'', ''Compost''),
      (''styrofoam'', ''Landfill (Avoid usage!)''),
      (''aluminum foil'', ''Recycle (Clean)''),
      (''batteries'', ''E-Waste Drop-off (Do not bin)''),
      (''coffee cup'', ''Landfill (Lined with plastic) / Lid is Recyclable''),
      (''glass jar'', ''Recycle'')]"

definition unknown_item :: string where
  "unknown_item = ''Unknown item. General rule: When in doubt, throw it out (Landfill).''"

fun scan :: "(string \<times> string) list \<Rightarrow> string \<Rightarrow> string" where
  "scan [] item = unknown_item"
| "scan ((key, advice) # rest) item = (if sublist key item then advice else scan rest item)"

definition get_waste_advice :: "string \<Rightarrow> string" where
  "get_waste_advice item = scan database (strip (lower item))"

section \<open>Properties of the sums\<close>

lemma wrap64_id: "- (2 ^ 63) \<le> n \<Longrightarrow> n < 2 ^ 63 \<Longrightarrow> wrap64 n = n"
  by (simp add: wrap64_def)

lemma wrap_add_left_gen:
  fixes a b c m :: int
  shows "((a + c) mod m - c + b + c) mod m = (a + b + c) mod m"
proof -
  have "(a + c) mod m - c + b + c = (a + c) mod m + b" by simp
  then have "((a + c) mod m - c + b + c) mod m = ((a + c) mod m + b) mod m" by simp
  also have "\<dots> = (a + c + b) mod m" by (rule mod_add_left_eq)
  also have "a + c + b = a + b + c" by simp
  finally show ?thesis .
qed

lemma wrap64_add_left: "wrap64 (wrap64 a + b) = wrap64 (a + b)"
  unfolding wrap64_def using wrap_add_left_gen [of a "2 ^ 63" "2 ^ 64" b] by simp

lemma wrap64_add_right: "wrap64 (a + wrap64 b) = wrap64 (a + b)"
  using wrap64_add_left [of b a] by (simp add: add.commute)

lemma foldl_wrap64:
  "foldl (\<lambda>acc n. wrap64 (acc + n)) (wrap64 a) ns = wrap64 (a + sum_list ns)"
proof (induction ns arbitrary: a)
  case Nil
  show ?case by simp
next
  case (Cons n ns)
  have "foldl (\<lambda>acc n. wrap64 (acc + n)) (wrap64 a) (n # ns)
      = foldl (\<lambda>acc n. wrap64 (acc + n)) (wrap64 (a + n)) ns"
    by (simp add: wrap64_add_left)
  also have "\<dots> = wrap64 (a + n + sum_list ns)" by (rule Cons.IH)
  finally show ?case by (simp add: add.assoc)
qed

lemma Series_sum_Int64: "Series_sum (Int64Series ns) = Int64 (wrap64 (sum_list ns))"
proof -
  have "wrap64 0 = 0" by (simp add: wrap64_def)
  then show ?thesis
    using foldl_wrap64 [of 0 ns] by (simp add: Series_sum_def)
qed

lemma np_add_Int64:
  "np_add (Int64 (wrap64 a)) (Int64 (wrap64 b)) = Int64 (wrap64 (a + b))"
  by (simp add: wrap64_add_left wrap64_add_right)


text \<open>The value of a sum in range is the exact sum.\<close>

lemma np_value_Series_sum:
  "\<bar>exact_sum s\<bar> < 2 ^ 63 \<Longrightarrow> np_value (Series_sum s) = exact_sum s"
proof (cases s)
  case (Int64Series ns)
  assume "\<bar>exact_sum s\<bar> < 2 ^ 63"
  with Int64Series have "\<bar>real_of_int (sum_list ns)\<bar> < 2 ^ 63" by (simp add: exact_sum_def)
  then have "\<bar>sum_list ns\<bar> < 2 ^ 63"
    by (metis of_int_abs of_int_less_numeral_power_cancel_iff)
  then have "wrap64 (sum_list ns) = sum_list ns" by (intro wrap64_id) linarith+
  with Int64Series show ?thesis
    by (simp add: Series_sum_Int64 np_value_def exact_sum_def)
next
  case (Float64Series xs)
  then show ?thesis by (simp add: Series_sum_def np_value_def exact_sum_def)
qed

lemma np_value_np_add:
  "\<bar>np_value a + np_value b\<bar> < 2 ^ 63 \<Longrightarrow> np_value (np_add a b) = np_value a + np_value b"
proof (cases a)
  case a: (Int64 m)
  assume h: "\<bar>np_value a + np_value b\<bar> < 2 ^ 63"
  show ?thesis
  proof (cases b)
    case b: (Int64 n)
    from h a b have "\<bar>real_of_int (m + n)\<bar> < 2 ^ 63" by (simp add: np_value_def)
    then have "\<bar>m + n\<bar> < 2 ^ 63"
      by (metis of_int_abs of_int_less_numeral_power_cancel_iff)
    then have "wrap64 (m + n) = m + n" by (intro wrap64_id) linarith+
    with a b show ?thesis by (simp add: np_value_def)
  next
    case (Float64 y)
    with a show ?thesis by (simp add: np_value_def)
  qed
next
  case (Float64 x)
  then show ?thesis by (simp add: np_value_def)
qed

section \<open>Properties of the Executive Dashboard\<close>

lemma div_rate_value:
  "div_rate df =
     Inr (if 0 < np_value (grand_total df)
          then 100 * np_value (np_add (total_recycling df) (total_compost df))
                 / np_value (grand_total df)
          else 0)"
  by (simp add: div_rate_def truediv_def)

lemma totals_in_range:
  assumes "\<bar>exact_sum (Recycling_column df)\<bar> + \<bar>exact_sum (Compost_column df)\<bar>
             + \<bar>exact_sum (Landfill_column df)\<bar> < 2 ^ 63"
  shows "np_value (total_recycling df) = exact_sum (Recycling_column df)"
    and "np_value (total_compost df) = exact_sum (Compost_column df)"
    and "np_value (total_landfill df) = exact_sum (Landfill_column df)"
    and "np_value (np_add (total_recycling df) (total_compost df))
           = exact_sum (Recycling_column df) + exact_sum (Compost_column df)"
    and "np_value (grand_total df)
           = exact_sum (Recycling_column df) + exact_sum (Compost_column df)
             + exact_sum (Landfill_column df)"
proof -
  let ?r = "exact_sum (Recycling_column df)"
  let ?c = "exact_sum (Compost_column df)"
  let ?l = "exact_sum (Landfill_column df)"
  from assms have b: "\<bar>?r\<bar> < 2 ^ 63" "\<bar>?c\<bar> < 2 ^ 63" "\<bar>?l\<bar> < 2 ^ 63"
    "\<bar>?r + ?c\<bar> < 2 ^ 63" "\<bar>?r + ?c + ?l\<bar> < 2 ^ 63"
    by linarith+
  show r: "np_value (total_recycling df) = ?r"
    unfolding total_recycling_def using b(1) by (rule np_value_Series_sum)
  show c: "np_value (total_compost df) = ?c"
    unfolding total_compost_def using b(2) by (rule np_value_Series_sum)
  show l: "np_value (total_landfill df) = ?l"
    unfolding total_landfill_def using b(3) by (rule np_value_Series_sum)
  show rc: "np_value (np_add (total_recycling df) (total_compost df)) = ?r + ?c"
    using np_value_np_add [of "total_recycling df" "total_compost df"] b(4) by (simp add: r c)
  show "np_value (grand_total df) = ?r + ?c + ?l"
    unfolding grand_total_def
    using np_value_np_add [of "np_add (total_recycling df) (total_compost df)" "total_landfill df"]
      b(5) by (simp add: rc l)
qed

text \<open>
  Claim C1, as the code has it. For every frame whose three column totals stay
  within the int64 range (the sum of their absolute values is below \<open>2 ^ 63\<close>), the
  three totals are the sums of the three quantity columns and \<open>grand_total\<close> is their
  sum; the diversion rate is \<open>100 * (total_recycling + total_compost) / grand_total\<close>
  when \<open>grand_total\<close> is positive and \<open>0\<close> when it is zero. For every frame the
  computation never meets the division fault: \<open>div_rate\<close> always returns a value.
  For the records (10, 5, 20) and (0, 0, 0), in int64 as in float64 columns, the
  totals are 10, 5 and 20, the grand total is 35 and the rate is \<open>300 / 7\<close>, which is
  42.857 up to a thousandth; for the empty frame the grand total and the rate are 0.
\<close>

theorem aggregate_in_range:
  "(\<bar>exact_sum (Recycling_column df)\<bar> + \<bar>exact_sum (Compost_column df)\<bar>
      + \<bar>exact_sum (Landfill_column df)\<bar> < 2 ^ 63 \<longrightarrow>
      np_value (total_recycling df) = exact_sum (Recycling_column df)
      \<and> np_value (total_compost df) = exact_sum (Compost_column df)
      \<and> np_value (total_landfill df) = exact_sum (Landfill_column df)
      \<and> np_value (grand_total df)
          = exact_sum (Recycling_column df) + exact_sum (Compost_column df)
            + exact_sum (Landfill_column df)
      \<and> (0 < np_value (grand_total df) \<longrightarrow>
           div_rate df
             = Inr (100 * (exact_sum (Recycling_column df) + exact_sum (Compost_column df))
                    / (exact_sum (Recycling_column df) + exact_sum (Compost_column df)
                       + exact_sum (Landfill_column df))))
      \<and> (np_value (grand_total df) = 0 \<longrightarrow> div_rate df = Inr 0))
   \<and> (\<exists>v. div_rate df = Inr v)
   \<and> total_recycling \<lparr>Recycling_column = Int64Series [10, 0], Compost_column = Int64Series [5, 0],
                       Landfill_column = Int64Series [20, 0]\<rparr> = Int64 10
   \<and> total_compost \<lparr>Recycling_column = Int64Series [10, 0], Compost_column = Int64Series [5, 0],
                     Landfill_column = Int64Series [20, 0]\<rparr> = Int64 5
   \<and> total_landfill \<lparr>Recycling_column = Int64Series [10, 0], Compost_column = Int64Series [5, 0],
                      Landfill_column = Int64Series [20, 0]\<rparr> = Int64 20
   \<and> grand_total \<lparr>Recycling_column = Int64Series [10, 0], Compost_column = Int64Series [5, 0],
                   Landfill_column = Int64Series [20, 0]\<rparr> = Int64 35
   \<and> div_rate \<lparr>Recycling_column = Int64Series [10, 0], Compost_column = Int64Series [5, 0],
                Landfill_column = Int64Series [20, 0]\<rparr> = Inr (300 / 7)
   \<and> grand_total \<lparr>Recycling_column = Float64Series [10, 0], Compost_column = Float64Series [5, 0],
                   Landfill_column = Float64Series [20, 0]\<rparr> = Float64 35
   \<and> div_rate \<lparr>Recycling_column = Float64Series [10, 0], Compost_column = Float64Series [5, 0],
                Landfill_column = Float64Series [20, 0]\<rparr> = Inr (300 / 7)
   \<and> \<bar>300 / 7 - 42.857\<bar> < (0.001 :: real)
   \<and> grand_total \<lparr>Recycling_column = Int64Series [], Compost_column = Int64Series [],
                   Landfill_column = Int64Series []\<rparr> = Int64 0
   \<and> div_rate \<lparr>Recycling_column = Int64Series [], Compost_column = Int64Series [],
                Landfill_column = Int64Series []\<rparr> = Inr 0"
proof -
  let ?r = "exact_sum (Recycling_column df)"
  let ?c = "exact_sum (Compost_column df)"
  let ?l = "exact_sum (Landfill_column df)"
  have main: "\<bar>?r\<bar> + \<bar>?c\<bar> + \<bar>?l\<bar> < 2 ^ 63 \<longrightarrow>
      np_value (total_recycling df) = ?r
      \<and> np_value (total_compost df) = ?c
      \<and> np_value (total_landfill df) = ?l
      \<and> np_value (grand_total df) = ?r + ?c + ?l
      \<and> (0 < np_value (grand_total df) \<longrightarrow>
           div_rate df = Inr (100 * (?r + ?c) / (?r + ?c + ?l)))
      \<and> (np_value (grand_total df) = 0 \<longrightarrow> div_rate df = Inr 0)"
  proof
    assume h: "\<bar>?r\<bar> + \<bar>?c\<bar> + \<bar>?l\<bar> < 2 ^ 63"
    note t = totals_in_range [OF h]
    have pos: "0 < np_value (grand_total df) \<longrightarrow>
           div_rate df = Inr (100 * (?r + ?c) / (?r + ?c + ?l))"
      by (simp add: div_rate_value t(4) t(5))
    have zero: "np_value (grand_total df) = 0 \<longrightarrow> div_rate df = Inr 0"
      by (simp add: div_rate_value)
    from t(1) t(2) t(3) t(5) pos zero
    show "np_value (total_recycling df) = ?r
      \<and> np_value (total_compost df) = ?c
      \<and> np_value (total_landfill df) = ?l
      \<and> np_value (grand_total df) = ?r + ?c + ?l
      \<and> (0 < np_value (grand_total df) \<longrightarrow>
           div_rate df = Inr (100 * (?r + ?c) / (?r + ?c + ?l)))
      \<and> (np_value (grand_total df) = 0 \<longrightarrow> div_rate df = Inr 0)"
      by blast
  qed
  have nofault: "\<exists>v. div_rate df = Inr v"
    by (simp add: div_rate_value)
  have i1: "total_recycling \<lparr>Recycling_column = Int64Series [10, 0], Compost_column = Int64Series [5, 0],
                       Landfill_column = Int64Series [20, 0]\<rparr> = Int64 10"
    and i2: "total_compost \<lparr>Recycling_column = Int64Series [10, 0], Compost_column = Int64Series [5, 0],
                     Landfill_column = Int64Series [20, 0]\<rparr> = Int64 5"
    and i3: "total_landfill \<lparr>Recycling_column = Int64Series [10, 0], Compost_column = Int64Series [5, 0],
                      Landfill_column = Int64Series [20, 0]\<rparr> = Int64 20"
    by (simp_all add: total_recycling_def total_compost_def total_landfill_def Series_sum_Int64
        wrap64_def)
  have i4: "grand_total \<lparr>Recycling_column = Int64Series [10, 0], Compost_column = Int64Series [5, 0],
                   Landfill_column = Int64Series [20, 0]\<rparr> = Int64 35"
    by (simp add: grand_total_def i1 i2 i3 wrap64_def)
  have i5: "div_rate \<lparr>Recycling_column = Int64Series [10, 0], Compost_column = Int64Series [5, 0],
                Landfill_column = Int64Series [20, 0]\<rparr> = Inr (300 / 7)"
    by (simp add: div_rate_value i1 i2 i4 wrap64_def np_value_def)
  have f4: "grand_total \<lparr>Recycling_column = Float64Series [10, 0], Compost_column = Float64Series [5, 0],
                   Landfill_column = Float64Series [20, 0]\<rparr> = Float64 35"
    by (simp add: grand_total_def total_recycling_def total_compost_def total_landfill_def
        Series_sum_def np_value_def)
  have f5: "div_rate \<lparr>Recycling_column = Float64Series [10, 0], Compost_column = Float64Series [5, 0],
                Landfill_column = Float64Series [20, 0]\<rparr> = Inr (300 / 7)"
    by (simp add: div_rate_value f4 total_recycling_def total_compost_def Series_sum_def
        np_value_def)
  have approx: "\<bar>300 / 7 - 42.857\<bar> < (0.001 :: real)" by simp
  have e4: "grand_total \<lparr>Recycling_column = Int64Series [], Compost_column = Int64Series [],
                   Landfill_column = Int64Series []\<rparr> = Int64 0"
    by (simp add: grand_total_def total_recycling_def total_compost_def total_landfill_def
        Series_sum_def wrap64_def)
  have e5: "div_rate \<lparr>Recycling_column = Int64Series [], Compost_column = Int64Series [],
                Landfill_column = Int64Series []\<rparr> = Inr 0"
    by (simp add: div_rate_value e4 np_value_def)
  from main nofault i1 i2 i3 i4 i5 f4 f5 approx e4 e5 show ?thesis by blast
qed

text \<open>
  The theorem at a frame with int64 and float64 columns and at the empty frame.
\<close>

theorem aggregate_in_range_witness:
  "\<bar>exact_sum (Int64Series [10, 0])\<bar> + \<bar>exact_sum (Float64Series [5, 0])\<bar>
      + \<bar>exact_sum (Int64Series [20, 0])\<bar> < 2 ^ 63
   \<and> np_value (grand_total \<lparr>Recycling_column = Int64Series [10, 0],
                             Compost_column = Float64Series [5, 0],
                             Landfill_column = Int64Series [20, 0]\<rparr>) = 35
   \<and> div_rate \<lparr>Recycling_column = Int64Series [10, 0], Compost_column = Float64Series [5, 0],
                Landfill_column = Int64Series [20, 0]\<rparr> = Inr (300 / 7)
   \<and> np_value (grand_total \<lparr>Recycling_column = Int64Series [], Compost_column = Int64Series [],
                             Landfill_column = Int64Series []\<rparr>) = 0
   \<and> div_rate \<lparr>Recycling_column = Int64Series [], Compost_column = Int64Series [],
                Landfill_column = Int64Series []\<rparr> = Inr 0"
proof -
  let ?df = "\<lparr>Recycling_column = Int64Series [10, 0], Compost_column = Float64Series [5, 0],
              Landfill_column = Int64Series [20, 0]\<rparr>"
  let ?e = "\<lparr>Recycling_column = Int64Series [], Compost_column = Int64Series [],
             Landfill_column = Int64Series []\<rparr>"
  have s: "exact_sum (Int64Series [10, 0]) = 10" "exact_sum (Float64Series [5, 0]) = 5"
    "exact_sum (Int64Series [20, 0]) = 20" "exact_sum (Int64Series []) = 0"
    by (simp_all add: exact_sum_def)
  have h: "\<bar>exact_sum (Int64Series [10, 0])\<bar> + \<bar>exact_sum (Float64Series [5, 0])\<bar>
      + \<bar>exact_sum (Int64Series [20, 0])\<bar> < 2 ^ 63"
    by (simp add: s)
  then have h': "\<bar>exact_sum (Recycling_column ?df)\<bar> + \<bar>exact_sum (Compost_column ?df)\<bar>
      + \<bar>exact_sum (Landfill_column ?df)\<bar> < 2 ^ 63"
    by simp
  from aggregate_in_range [of ?df] h'
  have g0: "np_value (grand_total ?df)
          = exact_sum (Recycling_column ?df) + exact_sum (Compost_column ?df)
            + exact_sum (Landfill_column ?df)"
    and d0: "0 < np_value (grand_total ?df) \<longrightarrow>
           div_rate ?df
             = Inr (100 * (exact_sum (Recycling_column ?df) + exact_sum (Compost_column ?df))
                    / (exact_sum (Recycling_column ?df) + exact_sum (Compost_column ?df)
                       + exact_sum (Landfill_column ?df)))"
    by blast+
  from g0 have g: "np_value (grand_total ?df) = 35" by (simp add: s)
  from d0 g have d: "div_rate ?df = Inr (300 / 7)" by (simp add: s)
  have he: "\<bar>exact_sum (Recycling_column ?e)\<bar> + \<bar>exact_sum (Compost_column ?e)\<bar>
      + \<bar>exact_sum (Landfill_column ?e)\<bar> < 2 ^ 63"
    by (simp add: s)
  from aggregate_in_range [of ?e] he
  have ge0: "np_value (grand_total ?e)
          = exact_sum (Recycling_column ?e) + exact_sum (Compost_column ?e)
            + exact_sum (Landfill_column ?e)"
    and de0: "np_value (grand_total ?e) = 0 \<longrightarrow> div_rate ?e = Inr 0"
    by blast+
  from ge0 have ge: "np_value (grand_total ?e) = 0" by (simp add: s)
  from de0 ge have de: "div_rate ?e = Inr 0" by simp
  from h g d ge de show ?thesis by blast
qed

text \<open>
  Claim C1 as stated fails where an int64 sum leaves the int64 range: for the
  recycling quantities 9223372036854775807 and 1 the total is \<open>- 2 ^ 63\<close>, not their
  sum \<open>2 ^ 63\<close>, and the rate is 0 although all the waste is recycled.
\<close>

theorem aggregate_overflow_counterexample:
  "total_recycling \<lparr>Recycling_column = Int64Series [9223372036854775807, 1],
                     Compost_column = Int64Series [0, 0],
                     Landfill_column = Int64Series [0, 0]\<rparr> = Int64 (- 9223372036854775808)
   \<and> exact_sum (Int64Series [9223372036854775807, 1]) = 9223372036854775808
   \<and> grand_total \<lparr>Recycling_column = Int64Series [9223372036854775807, 1],
                   Compost_column = Int64Series [0, 0],
                   Landfill_column = Int64Series [0, 0]\<rparr> = Int64 (- 9223372036854775808)
   \<and> div_rate \<lparr>Recycling_column = Int64Series [9223372036854775807, 1],
                Compost_column = Int64Series [0, 0],
                Landfill_column = Int64Series [0, 0]\<rparr> = Inr 0"
proof -
  have r: "total_recycling \<lparr>Recycling_column = Int64Series [9223372036854775807, 1],
                     Compost_column = Int64Series [0, 0],
                     Landfill_column = Int64Series [0, 0]\<rparr> = Int64 (- 9223372036854775808)"
    by (simp add: total_recycling_def Series_sum_Int64 wrap64_def)
  have e: "exact_sum (Int64Series [9223372036854775807, 1]) = 9223372036854775808"
    by (simp add: exact_sum_def)
  have g: "grand_total \<lparr>Recycling_column = Int64Series [9223372036854775807, 1],
                   Compost_column = Int64Series [0, 0],
                   Landfill_column = Int64Series [0, 0]\<rparr> = Int64 (- 9223372036854775808)"
    by (simp add: grand_total_def r total_compost_def total_landfill_def Series_sum_Int64
        wrap64_def)
  have d: "div_rate \<lparr>Recycling_column = Int64Series [9223372036854775807, 1],
                Compost_column = Int64Series [0, 0],
                Landfill_column = Int64Series [0, 0]\<rparr> = Inr 0"
    by (simp add: div_rate_value g np_value_def)
  from r e g d show ?thesis by blast
qed

section \<open>Properties of the Gamification page\<close>













section \<open>Properties of the AI Analyst page\<close>

subsection \<open>Least squares\<close>












subsection \<open>The page\<close>












text \<open>
  Claim C7. For every frame with fewer than 2 records the page takes the branch of
  the message \<^verbatim>\<open>Need more data to predict.\<close>: the outcome is \<open>NeedMoreData\<close>, which
  is neither a prediction nor an exception of the fit. For every frame with at least
  2 records the outcome is not \<open>NeedMoreData\<close>.
\<close>

theorem forecast_guard:
  "(length df < 2 \<longrightarrow>
      ai_analyst df = Inr NeedMoreData
      \<and> (\<forall>ps. ai_analyst df \<noteq> Inr (Predictions ps))
      \<and> (\<forall>e. ai_analyst df \<noteq> Inl e))
   \<and> (2 \<le> length df \<longrightarrow> ai_analyst df \<noteq> Inr NeedMoreData)"
  by (auto simp: ai_analyst_def split: sum.splits)

text \<open>The theorem at frames of one, zero and two records.\<close>

theorem forecast_guard_witness:
  "length [\<lparr>Date = 0, Recycling = 10, Compost = 5, Landfill = 20\<rparr>] < 2
   \<and> ai_analyst [\<lparr>Date = 0, Recycling = 10, Compost = 5, Landfill = 20\<rparr>] = Inr NeedMoreData
   \<and> ai_analyst [] = Inr NeedMoreData
   \<and> 2 \<le> length [\<lparr>Date = 0, Recycling = 50, Compost = 0, Landfill = 50\<rparr>,
                   \<lparr>Date = 7, Recycling = 60, Compost = 0, Landfill = 40\<rparr>]
   \<and> ai_analyst [\<lparr>Date = 0, Recycling = 50, Compost = 0, Landfill = 50\<rparr>,
                   \<lparr>Date = 7, Recycling = 60, Compost = 0, Landfill = 40\<rparr>] \<noteq> Inr NeedMoreData"
  using forecast_guard [of "[\<lparr>Date = 0, Recycling = 10, Compost = 5, Landfill = 20\<rparr>]"]
    forecast_guard [of "[]"]
    forecast_guard [of "[\<lparr>Date = 0, Recycling = 50, Compost = 0, Landfill = 50\<rparr>,
                   \<lparr>Date = 7, Recycling = 60, Compost = 0, Landfill = 40\<rparr>]"]
  by simp

section \<open>Properties of the storage\<close>

lemma reindex_frame_of:
  "reindex [''Date'', ''Recycling'', ''Compost'', ''Landfill''] (frame_of rs) = rows (frame_of rs)"
  by (simp add: reindex_def frame_of_def cell_at_def)

lemma concat_frame_of: "concat_frames (frame_of rs) (frame_of rs') = frame_of (rs @ rs')"
proof -
  have c: "columns (frame_of rs) = [''Date'', ''Recycling'', ''Compost'', ''Landfill'']"
    "columns (frame_of rs') = [''Date'', ''Recycling'', ''Compost'', ''Landfill'']"
    by (simp_all add: frame_of_def)
  have f: "filter (\<lambda>c. c \<notin> set (columns (frame_of rs))) (columns (frame_of rs')) = []"
    unfolding c by simp
  show ?thesis
    unfolding concat_frames_def Let_def f
    by (simp add: c reindex_frame_of) (simp add: frame_of_def)
qed

lemma load_data_existing:
  "content st = Some fc \<Longrightarrow> load_data today st = (st, read_csv st)"
  by (simp add: load_data_def path_exists_def)

lemma save_entry_frame_of:
  assumes "content st = Some (Csv (frame_of rs))" and "writable st"
  shows "save_entry today r c l st =
     (st\<lparr>content := Some (Csv (frame_of (rs @ [\<lparr>Date = today, Recycling = r, Compost = c, Landfill = l\<rparr>])))\<rparr>,
      Inr (frame_of (rs @ [\<lparr>Date = today, Recycling = r, Compost = c, Landfill = l\<rparr>])))"
  using assms
  by (simp add: save_entry_def load_data_existing read_csv_def new_entry_def concat_frame_of to_csv_def
      Let_def)

lemma save_entry_unwritable:
  assumes "content st = Some fc" and "\<not> writable st"
  shows "\<exists>e. save_entry today r c l st = (st, Inl e)"
  using assms
  by (auto simp: save_entry_def load_data_existing read_csv_def to_csv_def Let_def
      split: file_content.splits)

lemma rows_frame_of_append:
  "rows (frame_of (rs @ [r])) = rows (frame_of rs) @
     [[DateCell (Date r), NumCell (Recycling r), NumCell (Compost r), NumCell (Landfill r)]]"
  by (simp add: frame_of_def)

lemma length_rows_frame_of: "length (rows (frame_of rs)) = length rs"
  by (simp add: frame_of_def)

text \<open>
  Claim C4. Let the file hold a frame of \<open>N\<close> records. When the file can be written,
  \<open>save_entry today r c l\<close> succeeds; and whenever it succeeds, the frame it returns
  is the one it has written to the file, this frame has \<open>N + 1\<close> rows, its first \<open>N\<close>
  rows are the rows of the frame before, in the same order, its last row is
  \<open>(today, r, c, l)\<close>, and every later \<open>load_data\<close> returns this same frame and
  leaves the file as it is.
\<close>

theorem append_persists:
  "content st = Some (Csv (frame_of rs)) \<longrightarrow>
     (writable st \<longrightarrow> (\<exists>st' df'. save_entry today r c l st = (st', Inr df')))
     \<and> (\<forall>st' df'. save_entry today r c l st = (st', Inr df') \<longrightarrow>
           df' = frame_of (rs @ [\<lparr>Date = today, Recycling = r, Compost = c, Landfill = l\<rparr>])
           \<and> content st' = Some (Csv df')
           \<and> length (rows df') = length rs + 1
           \<and> take (length rs) (rows df') = rows (frame_of rs)
           \<and> last (rows df') = [DateCell today, NumCell r, NumCell c, NumCell l]
           \<and> (\<forall>later. load_data later st' = (st', Inr df')))"
proof
  assume ex: "content st = Some (Csv (frame_of rs))"
  let ?new = "\<lparr>Date = today, Recycling = r, Compost = c, Landfill = l\<rparr>"
  have succ: "writable st \<longrightarrow> (\<exists>st' df'. save_entry today r c l st = (st', Inr df'))"
    using save_entry_frame_of [OF ex] by blast
  have shape: "\<forall>st' df'. save_entry today r c l st = (st', Inr df') \<longrightarrow>
           df' = frame_of (rs @ [?new])
           \<and> content st' = Some (Csv df')
           \<and> length (rows df') = length rs + 1
           \<and> take (length rs) (rows df') = rows (frame_of rs)
           \<and> last (rows df') = [DateCell today, NumCell r, NumCell c, NumCell l]
           \<and> (\<forall>later. load_data later st' = (st', Inr df'))"
  proof (intro allI impI)
    fix st' df'
    assume ok: "save_entry today r c l st = (st', Inr df')"
    have w: "writable st"
    proof (rule ccontr)
      assume "\<not> writable st"
      from save_entry_unwritable [OF ex this, of today r c l] ok show False by auto
    qed
    from save_entry_frame_of [OF ex w, of today r c l] ok
    have st': "st' = st\<lparr>content := Some (Csv (frame_of (rs @ [?new])))\<rparr>"
      and df': "df' = frame_of (rs @ [?new])"
      by simp_all
    have c': "content st' = Some (Csv df')" by (simp add: st' df')
    have ld: "\<forall>later. load_data later st' = (st', Inr df')"
      using c' by (simp add: load_data_existing read_csv_def)
    have ln: "length (rows df') = length rs + 1"
      by (simp add: df' length_rows_frame_of)
    have tk: "take (length rs) (rows df') = rows (frame_of rs)"
      by (simp add: df' rows_frame_of_append length_rows_frame_of)
    have la: "last (rows df') = [DateCell today, NumCell r, NumCell c, NumCell l]"
      by (simp add: df' rows_frame_of_append)
    from df' c' ln tk la ld
    show "df' = frame_of (rs @ [?new])
           \<and> content st' = Some (Csv df')
           \<and> length (rows df') = length rs + 1
           \<and> take (length rs) (rows df') = rows (frame_of rs)
           \<and> last (rows df') = [DateCell today, NumCell r, NumCell c, NumCell l]
           \<and> (\<forall>later. load_data later st' = (st', Inr df'))"
      by blast
  qed
  from succ shape
  show "(writable st \<longrightarrow> (\<exists>st' df'. save_entry today r c l st = (st', Inr df')))
     \<and> (\<forall>st' df'. save_entry today r c l st = (st', Inr df') \<longrightarrow>
           df' = frame_of (rs @ [?new])
           \<and> content st' = Some (Csv df')
           \<and> length (rows df') = length rs + 1
           \<and> take (length rs) (rows df') = rows (frame_of rs)
           \<and> last (rows df') = [DateCell today, NumCell r, NumCell c, NumCell l]
           \<and> (\<forall>later. load_data later st' = (st', Inr df')))"
    by blast
qed

text \<open>The theorem at a file of one record, with the entry (5, 2, 3).\<close>

theorem append_persists_witness:
  "content \<lparr>content = Some (Csv (frame_of [\<lparr>Date = 1, Recycling = 45, Compost = 20, Landfill = 100\<rparr>])),
            writable = True\<rparr>
     = Some (Csv (frame_of [\<lparr>Date = 1, Recycling = 45, Compost = 20, Landfill = 100\<rparr>]))
   \<and> save_entry 8 5 2 3
        \<lparr>content = Some (Csv (frame_of [\<lparr>Date = 1, Recycling = 45, Compost = 20, Landfill = 100\<rparr>])),
         writable = True\<rparr>
     = (\<lparr>content = Some (Csv (frame_of [\<lparr>Date = 1, Recycling = 45, Compost = 20, Landfill = 100\<rparr>,
                                          \<lparr>Date = 8, Recycling = 5, Compost = 2, Landfill = 3\<rparr>])),
         writable = True\<rparr>,
        Inr (frame_of [\<lparr>Date = 1, Recycling = 45, Compost = 20, Landfill = 100\<rparr>,
                       \<lparr>Date = 8, Recycling = 5, Compost = 2, Landfill = 3\<rparr>]))
   \<and> load_data 9
        \<lparr>content = Some (Csv (frame_of [\<lparr>Date = 1, Recycling = 45, Compost = 20, Landfill = 100\<rparr>,
                                          \<lparr>Date = 8, Recycling = 5, Compost = 2, Landfill = 3\<rparr>])),
         writable = True\<rparr>
     = (\<lparr>content = Some (Csv (frame_of [\<lparr>Date = 1, Recycling = 45, Compost = 20, Landfill = 100\<rparr>,
                                          \<lparr>Date = 8, Recycling = 5, Compost = 2, Landfill = 3\<rparr>])),
         writable = True\<rparr>,
        Inr (frame_of [\<lparr>Date = 1, Recycling = 45, Compost = 20, Landfill = 100\<rparr>,
                       \<lparr>Date = 8, Recycling = 5, Compost = 2, Landfill = 3\<rparr>]))
   \<and> last (rows (frame_of [\<lparr>Date = 1, Recycling = 45, Compost = 20, Landfill = 100\<rparr>,
                       \<lparr>Date = 8, Recycling = 5, Compost = 2, Landfill = 3\<rparr>]))
     = [DateCell 8, NumCell 5, NumCell 2, NumCell 3]"
proof -
  let ?rs = "[\<lparr>Date = 1, Recycling = 45, Compost = 20, Landfill = 100\<rparr>]"
  let ?st = "\<lparr>content = Some (Csv (frame_of ?rs)), writable = True\<rparr>"
  let ?rs' = "[\<lparr>Date = 1, Recycling = 45, Compost = 20, Landfill = 100\<rparr>,
               \<lparr>Date = 8, Recycling = 5, Compost = 2, Landfill = 3\<rparr>]"
  let ?st' = "\<lparr>content = Some (Csv (frame_of ?rs')), writable = True\<rparr>"
  have ex: "content ?st = Some (Csv (frame_of ?rs))" by simp
  have run: "save_entry 8 5 2 3 ?st = (?st', Inr (frame_of ?rs'))"
    by (simp add: save_entry_def load_data_def path_exists_def read_csv_def new_entry_def
        to_csv_def concat_frames_def reindex_def cell_at_def frame_of_def Let_def)
  from append_persists [of ?st ?rs 8 5 2 3] ex run
  have "last (rows (frame_of ?rs')) = [DateCell 8, NumCell 5, NumCell 2, NumCell 3]
      \<and> (\<forall>later. load_data later ?st' = (?st', Inr (frame_of ?rs')))"
    by blast
  with ex run show ?thesis by blast
qed

text \<open>
  Claim C8, as the code has it: \<open>save_entry\<close> checks nothing. On a writable file
  that holds a frame of records it appends the row \<open>(today, r, c, l)\<close> whatever the
  signs of the three quantities, and the only errors it can return are those of the
  file (\<open>OSError\<close>, \<open>ParserError\<close>).
\<close>

theorem append_no_validation:
  "(content st = Some (Csv (frame_of rs)) \<and> writable st \<longrightarrow>
      save_entry today r c l st =
        (st\<lparr>content := Some (Csv (frame_of
              (rs @ [\<lparr>Date = today, Recycling = r, Compost = c, Landfill = l\<rparr>])))\<rparr>,
         Inr (frame_of (rs @ [\<lparr>Date = today, Recycling = r, Compost = c, Landfill = l\<rparr>]))))
   \<and> (\<forall>st' e. save_entry today r c l st = (st', Inl e) \<longrightarrow> e = OSError \<or> e = ParserError)"
proof -
  have a: "content st = Some (Csv (frame_of rs)) \<and> writable st \<longrightarrow>
      save_entry today r c l st =
        (st\<lparr>content := Some (Csv (frame_of
              (rs @ [\<lparr>Date = today, Recycling = r, Compost = c, Landfill = l\<rparr>])))\<rparr>,
         Inr (frame_of (rs @ [\<lparr>Date = today, Recycling = r, Compost = c, Landfill = l\<rparr>])))"
    using save_entry_frame_of by blast
  have b: "\<forall>st' e. save_entry today r c l st = (st', Inl e) \<longrightarrow> e = OSError \<or> e = ParserError"
    by (auto simp: save_entry_def load_data_def read_csv_def to_csv_def Let_def
        split: if_splits sum.splits option.splits file_content.splits prod.splits)
  from a b show ?thesis by blast
qed

text \<open>The theorem at an entry with two negative quantities.\<close>

theorem append_no_validation_witness:
  "content \<lparr>content = Some (Csv (frame_of [])), writable = True\<rparr> = Some (Csv (frame_of []))
   \<and> writable \<lparr>content = Some (Csv (frame_of [])), writable = True\<rparr>
   \<and> save_entry 8 (- 1) 0 (- 3) \<lparr>content = Some (Csv (frame_of [])), writable = True\<rparr>
     = (\<lparr>content = Some (Csv (frame_of [\<lparr>Date = 8, Recycling = - 1, Compost = 0, Landfill = - 3\<rparr>])),
         writable = True\<rparr>,
        Inr (frame_of [\<lparr>Date = 8, Recycling = - 1, Compost = 0, Landfill = - 3\<rparr>]))"
  using append_no_validation [of "\<lparr>content = Some (Csv (frame_of [])), writable = True\<rparr>" "[]" 8 "- 1" 0 "- 3"]
  by simp

text \<open>
  Claim C8 as stated fails: the entry \<open>(-1, 0, 0)\<close> is not rejected; it is written
  to the file and returned.
\<close>

theorem append_negative_counterexample:
  "save_entry 8 (- 1) 0 0 \<lparr>content = Some (Csv (frame_of [])), writable = True\<rparr>
     = (\<lparr>content = Some (Csv (frame_of [\<lparr>Date = 8, Recycling = - 1, Compost = 0, Landfill = 0\<rparr>])),
         writable = True\<rparr>,
        Inr (frame_of [\<lparr>Date = 8, Recycling = - 1, Compost = 0, Landfill = 0\<rparr>]))"
  by (simp add: save_entry_def load_data_def path_exists_def read_csv_def new_entry_def
      to_csv_def concat_frames_def reindex_def cell_at_def frame_of_def Let_def)

text \<open>
  Claim C9, as the code has it: \<open>load_data\<close> checks nothing. When the file holds a
  text that parses to a frame, that frame is returned as it is, whatever its columns
  and cells, and the file is left as it is; when pandas cannot parse the text, its
  error is the result. For a file that exists, a frame that is returned is the frame
  of the file: neither the seed nor an empty frame takes its place.
\<close>

theorem load_no_validation:
  "(content st = Some (Csv df) \<longrightarrow> load_data today st = (st, Inr df))
   \<and> (content st = Some Unparseable \<longrightarrow> load_data today st = (st, Inl ParserError))
   \<and> (content st \<noteq> None \<longrightarrow>
        (\<forall>st' df. load_data today st = (st', Inr df) \<longrightarrow> st' = st \<and> content st = Some (Csv df)))"
  by (auto simp: load_data_def path_exists_def read_csv_def split: file_content.splits)

text \<open>The theorem at a file with the single column Date and at an unparseable file.\<close>

theorem load_no_validation_witness:
  "content \<lparr>content = Some (Csv \<lparr>columns = [''Date''], rows = []\<rparr>), writable = False\<rparr>
     = Some (Csv \<lparr>columns = [''Date''], rows = []\<rparr>)
   \<and> load_data 8 \<lparr>content = Some (Csv \<lparr>columns = [''Date''], rows = []\<rparr>), writable = False\<rparr>
     = (\<lparr>content = Some (Csv \<lparr>columns = [''Date''], rows = []\<rparr>), writable = False\<rparr>,
        Inr \<lparr>columns = [''Date''], rows = []\<rparr>)
   \<and> content \<lparr>content = Some Unparseable, writable = False\<rparr> = Some Unparseable
   \<and> load_data 8 \<lparr>content = Some Unparseable, writable = False\<rparr>
     = (\<lparr>content = Some Unparseable, writable = False\<rparr>, Inl ParserError)"
proof -
  let ?df = "\<lparr>columns = [''Date''], rows = []\<rparr>"
  let ?st1 = "\<lparr>content = Some (Csv ?df), writable = False\<rparr>"
  let ?st2 = "\<lparr>content = Some Unparseable, writable = False\<rparr>"
  have c1: "content ?st1 = Some (Csv ?df)" by simp
  have c2: "content ?st2 = Some Unparseable" by simp
  from load_no_validation [of ?st1 ?df 8] c1
  have l1: "load_data 8 ?st1 = (?st1, Inr ?df)" by blast
  from load_no_validation [of ?st2 ?df 8] c2
  have l2: "load_data 8 ?st2 = (?st2, Inl ParserError)" by blast
  from load_no_validation [of ?st1 ?df 8] c1 l1
  have "content ?st1 = Some (Csv ?df)" by blast
  with l1 c2 l2 show ?thesis by blast
qed

text \<open>
  Claim C9 as stated fails: a file without the column Landfill and with a text in
  the column Recycling is loaded without any error.
\<close>

theorem load_malformed_counterexample:
  "load_data 8
     \<lparr>content = Some (Csv \<lparr>columns = [''Date'', ''Recycling'', ''Compost''],
                            rows = [[DateCell 1, StrCell ''abc'', NumCell 5]]\<rparr>),
      writable = True\<rparr>
   = (\<lparr>content = Some (Csv \<lparr>columns = [''Date'', ''Recycling'', ''Compost''],
                            rows = [[DateCell 1, StrCell ''abc'', NumCell 5]]\<rparr>),
       writable = True\<rparr>,
      Inr \<lparr>columns = [''Date'', ''Recycling'', ''Compost''],
           rows = [[DateCell 1, StrCell ''abc'', NumCell 5]]\<rparr>)"
  by (simp add: load_data_def path_exists_def read_csv_def)

section \<open>Properties of the Smart Sorter\<close>

lemma scan_find:
  "scan db item = (case find (\<lambda>(key, advice). sublist key item) db of
                     Some (key, advice) \<Rightarrow> advice | None \<Rightarrow> unknown_item)"
  by (induction db item rule: scan.induct) auto

lemma scan_first_index:
  "i < length db \<Longrightarrow> sublist (fst (db ! i)) item \<Longrightarrow>
   (\<forall>j < i. \<not> sublist (fst (db ! j)) item) \<Longrightarrow> scan db item = snd (db ! i)"
proof (induction db arbitrary: i)
  case Nil
  then show ?case by simp
next
  case (Cons kv db)
  obtain key advice where kv: "kv = (key, advice)" by (cases kv)
  show ?case
  proof (cases i)
    case 0
    with Cons.prems kv show ?thesis by simp
  next
    case (Suc m)
    from Cons.prems(3) Suc have "\<not> sublist (fst ((kv # db) ! 0)) item" by blast
    then have miss: "\<not> sublist key item" by (simp add: kv)
    from Cons.prems Suc have a: "m < length db" "sublist (fst (db ! m)) item" by simp_all
    have b: "\<forall>j < m. \<not> sublist (fst (db ! j)) item"
    proof (intro allI impI)
      fix j assume "j < m"
      then have "Suc j < i" using Suc by simp
      with Cons.prems(3) have "\<not> sublist (fst ((kv # db) ! Suc j)) item" by blast
      then show "\<not> sublist (fst (db ! j)) item" by simp
    qed
    from Cons.IH [OF a b] miss show ?thesis by (simp add: kv Suc)
  qed
qed

lemma scan_no_match:
  "(\<forall>key \<in> fst ` set db. \<not> sublist key item) \<Longrightarrow> scan db item = unknown_item"
  by (induction db item rule: scan.induct) auto

lemma scan_match:
  "(\<exists>key \<in> fst ` set db. sublist key item) \<Longrightarrow> scan db item \<in> snd ` set db"
  by (induction db item rule: scan.induct) (auto simp: image_iff)

lemma unknown_item_not_advice: "unknown_item \<notin> snd ` set database"
  by code_simp

lemma isspace_lower_char: "isspace c \<Longrightarrow> lower_char c = c"
  by (auto simp: isspace_def lower_char_def Let_def)

lemma lower_append: "lower (xs @ ys) = lower xs @ lower ys"
  by (simp add: lower_def)

lemma lower_spaces: "list_all isspace ws \<Longrightarrow> lower ws = ws \<and> list_all isspace (lower ws)"
  by (induction ws) (auto simp: lower_def isspace_lower_char)

lemma strip_spaces_left: "list_all isspace ws \<Longrightarrow> strip (ws @ s) = strip s"
proof -
  assume "list_all isspace ws"
  then have "\<And>x. x \<in> set ws \<Longrightarrow> isspace x" by (simp add: list_all_iff)
  then have "dropWhile isspace (ws @ s) = dropWhile isspace s" by (rule dropWhile_append2)
  then show ?thesis by (simp add: strip_def)
qed

lemma strip_spaces_right: "list_all isspace ws \<Longrightarrow> strip (s @ ws) = strip s"
proof (cases "list_all isspace s")
  case True
  assume "list_all isspace ws"
  with True have d: "dropWhile isspace (s @ ws) = []" "dropWhile isspace s = []"
    by (auto simp: list_all_iff)
  show ?thesis unfolding strip_def d by simp
next
  case False
  assume ws: "list_all isspace ws"
  from False have d1: "dropWhile isspace (s @ ws) = dropWhile isspace s @ ws"
    by (auto simp: list_all_iff dropWhile_append1)
  from ws have "\<And>x. x \<in> set (rev ws) \<Longrightarrow> isspace x"
    by (simp add: list_all_iff)
  then have d2: "dropWhile isspace (rev ws @ rev (dropWhile isspace s))
      = dropWhile isspace (rev (dropWhile isspace s))"
    by (rule dropWhile_append2)
  show ?thesis unfolding strip_def d1 rev_append d2 by simp
qed

lemma strip_sublist: "sublist (strip s) s"
proof -
  have "sublist (dropWhile isspace (rev (dropWhile isspace s))) (rev (dropWhile isspace s))"
    by simp
  then have "sublist (strip s) (dropWhile isspace s)"
    by (simp add: strip_def sublist_rev_left)
  moreover have "sublist (dropWhile isspace s) s" by simp
  ultimately show ?thesis by (rule sublist_order.order.trans)
qed

lemma key_chars_lower: "\<forall>key \<in> fst ` set database. \<forall>c \<in> set key. lower_char c = c"
  by code_simp

text \<open>
  Claim C5. For every query, \<open>get_waste_advice\<close> lowers and strips the query and
  returns the advice of the first key of the table, in the order the table is written,
  that occurs as a contiguous substring of the normalised query; when no key occurs in
  it, the result is the fixed default message, which advises the landfill. The
  result does not depend on the case of the query nor on whitespace around it. The
  queries \<^verbatim>\<open>"  PLASTIC BOTTLE  "\<close> and \<^verbatim>\<open>"a used plastic bottle"\<close> both give the advice
  of the plastic bottle, and \<^verbatim>\<open>"tire"\<close> gives the default message.
\<close>

theorem get_waste_advice_first_match:
  "get_waste_advice q =
     (case find (\<lambda>(key, advice). sublist key (strip (lower q))) database of
        Some (key, advice) \<Rightarrow> advice
      | None \<Rightarrow> unknown_item)
   \<and> (\<forall>i < length database.
        sublist (fst (database ! i)) (strip (lower q))
        \<and> (\<forall>j < i. \<not> sublist (fst (database ! j)) (strip (lower q)))
        \<longrightarrow> get_waste_advice q = snd (database ! i))
   \<and> ((\<forall>key \<in> fst ` set database. \<not> sublist key (strip (lower q)))
        \<longrightarrow> get_waste_advice q = unknown_item)
   \<and> (lower q = lower q' \<longrightarrow> get_waste_advice q = get_waste_advice q')
   \<and> (list_all isspace ws \<and> list_all isspace ws'
        \<longrightarrow> get_waste_advice (ws @ q @ ws') = get_waste_advice q)
   \<and> sublist ''Landfill'' unknown_item
   \<and> get_waste_advice ''  PLASTIC BOTTLE  '' = ''Recycle (Rinse first)''
   \<and> get_waste_advice ''a used plastic bottle'' = ''Recycle (Rinse first)''
   \<and> get_waste_advice ''tire'' = unknown_item"
proof -
  have first: "get_waste_advice q =
     (case find (\<lambda>(key, advice). sublist key (strip (lower q))) database of
        Some (key, advice) \<Rightarrow> advice
      | None \<Rightarrow> unknown_item)"
    unfolding get_waste_advice_def by (rule scan_find)
  have index: "\<forall>i < length database.
        sublist (fst (database ! i)) (strip (lower q))
        \<and> (\<forall>j < i. \<not> sublist (fst (database ! j)) (strip (lower q)))
        \<longrightarrow> get_waste_advice q = snd (database ! i)"
    unfolding get_waste_advice_def using scan_first_index by blast
  have none: "(\<forall>key \<in> fst ` set database. \<not> sublist key (strip (lower q)))
        \<longrightarrow> get_waste_advice q = unknown_item"
    unfolding get_waste_advice_def using scan_no_match by blast
  have cs: "lower q = lower q' \<longrightarrow> get_waste_advice q = get_waste_advice q'"
    by (simp add: get_waste_advice_def)
  have space: "list_all isspace ws \<and> list_all isspace ws'
        \<longrightarrow> get_waste_advice (ws @ q @ ws') = get_waste_advice q"
  proof
    assume h: "list_all isspace ws \<and> list_all isspace ws'"
    then have l: "lower ws = ws" "lower ws' = ws'" by (simp_all add: lower_spaces)
    have "strip (lower (ws @ q @ ws')) = strip (ws @ (lower q @ ws'))"
      by (simp add: lower_append l)
    also have "\<dots> = strip (lower q @ ws')" using h by (simp add: strip_spaces_left)
    also have "\<dots> = strip (lower q)" using h by (simp add: strip_spaces_right)
    finally show "get_waste_advice (ws @ q @ ws') = get_waste_advice q"
      by (simp add: get_waste_advice_def)
  qed
  have land: "sublist ''Landfill'' unknown_item" by code_simp
  have e1: "get_waste_advice ''  PLASTIC BOTTLE  '' = ''Recycle (Rinse first)''" by code_simp
  have e2: "get_waste_advice ''a used plastic bottle'' = ''Recycle (Rinse first)''" by code_simp
  have e3: "get_waste_advice ''tire'' = unknown_item" by code_simp
  from first index none cs space land e1 e2 e3 show ?thesis by blast
qed

text \<open>The theorem at the queries \<^verbatim>\<open>"  PLASTIC BOTTLE  "\<close> and \<^verbatim>\<open>"tire"\<close>.\<close>

theorem get_waste_advice_first_match_witness:
  "1 < length database
   \<and> sublist (fst (database ! 1)) (strip (lower ''  PLASTIC BOTTLE  ''))
   \<and> \<not> sublist (fst (database ! 0)) (strip (lower ''  PLASTIC BOTTLE  ''))
   \<and> get_waste_advice ''  PLASTIC BOTTLE  '' = snd (database ! 1)
   \<and> snd (database ! 1) = ''Recycle (Rinse first)''
   \<and> \<not> (\<exists>key \<in> fst ` set database. sublist key (strip (lower ''tire'')))
   \<and> get_waste_advice ''tire'' = unknown_item
   \<and> lower ''Glass Jar'' = lower ''glass JAR''
   \<and> get_waste_advice ''Glass Jar'' = get_waste_advice ''glass JAR''
   \<and> list_all isspace ''  '' \<and> list_all isspace [CHR 0x09, CHR 0x0A]
   \<and> get_waste_advice (''  '' @ ''Glass Jar'' @ [CHR 0x09, CHR 0x0A])
       = get_waste_advice ''Glass Jar''"
proof -
  let ?q = "''  PLASTIC BOTTLE  ''"
  have a: "1 < length database" by code_simp
  have b: "sublist (fst (database ! 1)) (strip (lower ?q))" by code_simp
  have c: "\<not> sublist (fst (database ! 0)) (strip (lower ?q))" by code_simp
  have c': "\<forall>j < 1. \<not> sublist (fst (database ! j)) (strip (lower ?q))"
    using c by simp
  have d: "snd (database ! 1) = ''Recycle (Rinse first)''" by code_simp
  have e: "\<forall>key \<in> fst ` set database. \<not> sublist key (strip (lower ''tire''))" by code_simp
  from get_waste_advice_first_match [of ?q] a b c'
  have f: "get_waste_advice ?q = snd (database ! 1)" by blast
  from get_waste_advice_first_match [of "''tire''"] e
  have g: "get_waste_advice ''tire'' = unknown_item" by blast
  have h: "lower ''Glass Jar'' = lower ''glass JAR''" by code_simp
  from get_waste_advice_first_match [of "''Glass Jar''" "''glass JAR''"] h
  have i: "get_waste_advice ''Glass Jar'' = get_waste_advice ''glass JAR''" by blast
  have j: "list_all isspace ''  ''" "list_all isspace [CHR 0x09, CHR 0x0A]" by code_simp+
  from get_waste_advice_first_match [of "''Glass Jar''" _ "''  ''" "[CHR 0x09, CHR 0x0A]"] j
  have k: "get_waste_advice (''  '' @ ''Glass Jar'' @ [CHR 0x09, CHR 0x0A])
       = get_waste_advice ''Glass Jar''" by blast
  from a b c d e f g h i j k show ?thesis by blast
qed

text \<open>
  Claim C10. The match goes in one direction only: the result is an advice of the
  table exactly when some key of the table occurs, whole, as a contiguous substring
  of the normalised query. So a query that is a proper substring of a key and
  contains no key gets the default message, not the advice of that key: this is what
  \<^verbatim>\<open>"battery"\<close> and \<^verbatim>\<open>"batter"\<close> get, while \<^verbatim>\<open>"batteries"\<close> gets the advice of
  its key.
\<close>

theorem get_waste_advice_one_direction:
  "(get_waste_advice q \<in> snd ` set database
      \<longleftrightarrow> (\<exists>key \<in> fst ` set database. sublist key (strip (lower q))))
   \<and> ((\<exists>key \<in> fst ` set database. strict_sublist q key)
        \<and> (\<forall>key \<in> fst ` set database. \<not> sublist key q)
        \<longrightarrow> get_waste_advice q = unknown_item)
   \<and> get_waste_advice ''battery'' = unknown_item
   \<and> get_waste_advice ''batter'' = unknown_item
   \<and> get_waste_advice ''batteries'' = ''E-Waste Drop-off (Do not bin)''"
proof -
  have iff: "get_waste_advice q \<in> snd ` set database
      \<longleftrightarrow> (\<exists>key \<in> fst ` set database. sublist key (strip (lower q)))"
  proof
    assume v: "get_waste_advice q \<in> snd ` set database"
    show "\<exists>key \<in> fst ` set database. sublist key (strip (lower q))"
    proof (rule ccontr)
      assume "\<not> (\<exists>key \<in> fst ` set database. sublist key (strip (lower q)))"
      then have "get_waste_advice q = unknown_item"
        unfolding get_waste_advice_def using scan_no_match by blast
      with v unknown_item_not_advice show False by simp
    qed
  next
    assume "\<exists>key \<in> fst ` set database. sublist key (strip (lower q))"
    then show "get_waste_advice q \<in> snd ` set database"
      unfolding get_waste_advice_def by (rule scan_match)
  qed
  have part: "(\<exists>key \<in> fst ` set database. strict_sublist q key)
        \<and> (\<forall>key \<in> fst ` set database. \<not> sublist key q)
        \<longrightarrow> get_waste_advice q = unknown_item"
  proof
    assume h: "(\<exists>key \<in> fst ` set database. strict_sublist q key)
        \<and> (\<forall>key \<in> fst ` set database. \<not> sublist key q)"
    then obtain k where k: "k \<in> fst ` set database" "sublist q k"
      by (auto simp: strict_sublist_def)
    from k(2) have "set q \<subseteq> set k" by (rule set_mono_sublist)
    with k(1) key_chars_lower have "\<forall>c \<in> set q. lower_char c = c" by blast
    then have low: "lower q = q" by (simp add: lower_def map_idI)
    have "\<forall>key \<in> fst ` set database. \<not> sublist key (strip q)"
    proof
      fix key assume key: "key \<in> fst ` set database"
      show "\<not> sublist key (strip q)"
      proof
        assume "sublist key (strip q)"
        then have "sublist key q" using strip_sublist by (rule sublist_order.order.trans)
        with h key show False by blast
      qed
    qed
    then show "get_waste_advice q = unknown_item"
      unfolding get_waste_advice_def low by (rule scan_no_match)
  qed
  have e1: "get_waste_advice ''battery'' = unknown_item" by code_simp
  have e2: "get_waste_advice ''batter'' = unknown_item" by code_simp
  have e3: "get_waste_advice ''batteries'' = ''E-Waste Drop-off (Do not bin)''" by code_simp
  from iff part e1 e2 e3 show ?thesis by blast
qed

text \<open>The theorem at the queries \<^verbatim>\<open>"batter"\<close> and \<^verbatim>\<open>"Old BATTERIES"\<close>.\<close>

theorem get_waste_advice_one_direction_witness:
  "(\<exists>key \<in> fst ` set database. strict_sublist ''batter'' key)
   \<and> \<not> (\<exists>key \<in> fst ` set database. sublist key ''batter'')
   \<and> get_waste_advice ''batter'' = unknown_item
   \<and> (\<exists>key \<in> fst ` set database. sublist key (strip (lower ''Old BATTERIES'')))
   \<and> get_waste_advice ''Old BATTERIES'' \<in> snd ` set database"
proof -
  have a: "\<exists>key \<in> fst ` set database. strict_sublist ''batter'' key" by code_simp
  have b: "\<forall>key \<in> fst ` set database. \<not> sublist key ''batter''" by code_simp
  have c: "\<exists>key \<in> fst ` set database. sublist key (strip (lower ''Old BATTERIES''))"
    by code_simp
  from get_waste_advice_one_direction [of "''batter''"] a b
  have d: "get_waste_advice ''batter'' = unknown_item" by blast
  from get_waste_advice_one_direction [of "''Old BATTERIES''"] c
  have e: "get_waste_advice ''Old BATTERIES'' \<in> snd ` set database" by blast
  from a b c d e show ?thesis by blast
qed

end
